theory Spec2Isabelle
  imports Complex_Main "HOL-Library.Word" "HOL-Library.Char_ord" "HOL-Library.List_Lexorder"
begin

section \<open>The stream-discovery resolver (resolver\_impl.cpp)\<close>

text \<open>
  A shallow embedding of \<^verbatim>\<open>src/resolver_impl.cpp\<close>. The member variables of
  \<^verbatim>\<open>resolver_impl\<close> are the fields of one record; a member \<^verbatim>\<open>x_\<close> of the source is the
  field \<open>x\<close> here (a record field cannot end in an underscore), and the member
  \<^verbatim>\<open>results_\<close> is \<open>results_map\<close>, since \<open>results\<close> is the member function.
  A \<^verbatim>\<open>double\<close> is a \<open>real\<close> (times and intervals are finite and never NaN), an
  \<^verbatim>\<open>int\<close> is a \<open>32 word\<close>, \<^verbatim>\<open>uint32_t\<close> a \<open>32 word\<close>, \<^verbatim>\<open>std::size_t\<close> a \<open>64 word\<close>.
  Everything the code obtains from outside the file (the configuration singleton,
  the XPath parser, address parsing, name resolution, socket creation) is a field of
  the record \<open>environment\<close>; the value of \<^verbatim>\<open>lsl_clock()\<close> is an explicit argument
  \<open>now\<close> of every function that reads the clock.
\<close>

subsection \<open>Configuration and environment\<close>

text \<open>
  A protocol stack. \<^verbatim>\<open>udp::v6()\<close> and \<^verbatim>\<open>tcp::v6()\<close> are both \<open>V6\<close>, and likewise for
  \<open>V4\<close>.
\<close>

datatype ip_version = V6 | V4

type_synonym udp_protocol = ip_version

type_synonym tcp_protocol = ip_version

type_synonym endpoint = "string \<times> 16 word"

record api_config =
  multicast_addresses :: "string list"
  multicast_port :: "16 word"
  known_peers :: "string list"
  base_port :: int
  port_range :: int
  allow_ipv6 :: bool
  allow_ipv4 :: bool
  session_id :: string
  multicast_min_rtt :: real
  multicast_max_rtt :: real
  unicast_min_rtt :: real
  unicast_max_rtt :: real
  continuous_resolve_interval :: real

text \<open>
  \<open>xpath_error q\<close> is \<open>Some what\<close> when \<^verbatim>\<open>pugi::xpath_query(q)\<close> throws (with that
  \<^verbatim>\<open>what()\<close>) and \<open>None\<close> when the query parses. \<open>make_address a\<close> is \<open>None\<close> when
  \<^verbatim>\<open>ip::make_address\<close> throws. \<open>resolve_peer h\<close> is the list of addresses that
  \<^verbatim>\<open>udp_resolver.resolve\<close> returns for the host \<open>h\<close>, or \<open>None\<close> when it throws.
  \<open>attempt_error p eps\<close> is \<open>Some what\<close> when creating and beginning a
  \<^verbatim>\<open>resolve_attempt_udp\<close> on stack \<open>p\<close> for the endpoints \<open>eps\<close> throws a
  \<^verbatim>\<open>std::exception\<close>, and \<open>None\<close> when the attempt starts. \<open>FOREVER\<close> is the constant of
  that name of \<^verbatim>\<open>common.h\<close>.
\<close>

record environment =
  cfg :: api_config
  FOREVER :: real
  xpath_error :: "string \<Rightarrow> string option"
  make_address :: "string \<Rightarrow> string option"
  resolve_peer :: "string \<Rightarrow> string list option"
  attempt_error :: "udp_protocol \<Rightarrow> endpoint list \<Rightarrow> string option"

subsection \<open>The resolver's state\<close>

datatype verbosity = ERROR | WARNING

text \<open>A resolve attempt: its stack, its targets, the query it carries and its RTT budget.\<close>

datatype attempt = Attempt udp_protocol "endpoint list" string real

text \<open>The closures that \<^verbatim>\<open>cancel_ongoing_resolve\<close> posts onto the I/O context.\<close>

datatype handler = Cancel_wave_timer | Cancel_unicast_timer | Cancel_resolve_timeout

text \<open>
  A timer is \<open>Some d\<close> while a wait of \<open>d\<close> seconds is pending on it (the argument given
  to \<^verbatim>\<open>timeout_sec\<close>), and \<open>None\<close> otherwise. \<open>io\<close> holds the posted handlers that have
  not run yet. \<open>attempts\<close> is the registry of attempts that are under way, \<open>begun\<close> the
  history of every attempt whose \<^verbatim>\<open>begin()\<close> has run, and \<open>log\<close> what \<^verbatim>\<open>LOG_F\<close> has
  written; the last two are only ever appended to.
\<close>

record 'd resolver_impl =
  cancelled :: bool
  expired :: bool
  forget_after :: real
  fast_mode :: bool
  query :: string
  minimum :: "32 word"
  wait_until :: real
  results_map :: "(string \<times> 'd \<times> real) list"
  mcast_endpoints :: "endpoint list"
  ucast_endpoints :: "endpoint list"
  udp_protocols :: "udp_protocol list"
  tcp_protocols :: "tcp_protocol list"
  resolve_timeout_expired :: "real option"
  wave_timer :: "real option"
  unicast_timer :: "real option"
  io :: "handler list"
  background_io :: bool
  attempts :: "attempt list"
  begun :: "attempt list"
  log :: "(verbosity \<times> string) list"

subsection \<open>Construction\<close>

text \<open>
  The constructor. A multicast address that does not parse and a peer that does not
  resolve are dropped. \<open>minimum\<close> and \<open>wait_until\<close> are not initialised by the source;
  every resolve call assigns them before the first wave reads them, and they are 0 here.
\<close>

definition port_list :: "api_config \<Rightarrow> 16 word list" where
  "port_list c = map word_of_int [base_port c .. base_port c + port_range c - 1]"

definition new_resolver_impl :: "environment \<Rightarrow> 'd resolver_impl" where
  "new_resolver_impl env =
     \<lparr> cancelled = False,
       expired = False,
       forget_after = FOREVER env,
       fast_mode = True,
       query = [],
       minimum = 0,
       wait_until = 0,
       results_map = [],
       mcast_endpoints =
         concat (map (\<lambda>mcast_addr.
                        case make_address env mcast_addr of
                          None \<Rightarrow> []
                        | Some a \<Rightarrow> [(a, multicast_port (cfg env))])
                     (multicast_addresses (cfg env))),
       ucast_endpoints =
         concat (map (\<lambda>peer.
                        case resolve_peer env peer of
                          None \<Rightarrow> []
                        | Some res \<Rightarrow>
                            concat (map (\<lambda>a. map (\<lambda>p. (a, p)) (port_list (cfg env))) res))
                     (known_peers (cfg env))),
       udp_protocols =
         (if allow_ipv6 (cfg env) then [V6] else []) @ (if allow_ipv4 (cfg env) then [V4] else []),
       tcp_protocols =
         (if allow_ipv6 (cfg env) then [V6] else []) @ (if allow_ipv4 (cfg env) then [V4] else []),
       resolve_timeout_expired = None,
       wave_timer = None,
       unicast_timer = None,
       io = [],
       background_io = False,
       attempts = [],
       begun = [],
       log = [] \<rparr>"

subsection \<open>Query checking and query construction\<close>

datatype exception = Invalid_argument string

definition quote :: char where
  "quote = CHR 0x27"

definition check_query :: "environment \<Rightarrow> string \<Rightarrow> exception + unit" where
  "check_query env q =
     (case xpath_error env q of
        None \<Rightarrow> Inr ()
      | Some what \<Rightarrow>
          Inl (Invalid_argument (((''Invalid query '' @ [quote]) @ q) @ ([quote] @ '': '') @ what)))"

text \<open>
  \<open>build_query\<close>: each of the two C strings is \<open>None\<close> when the pointer is null.
\<close>

definition build_query :: "environment \<Rightarrow> string option \<Rightarrow> string option \<Rightarrow> string" where
  "build_query env pred_or_prop val =
     (let q0 = ''session_id='' @ [quote];
          q1 = q0 @ session_id (cfg env);
          q2 = q1 @ [quote];
          q3 = (case pred_or_prop of None \<Rightarrow> q2 | Some p \<Rightarrow> (q2 @ '' and '') @ p);
          q4 = (case val of None \<Rightarrow> q3 | Some v \<Rightarrow> ((q3 @ (''='' @ [quote])) @ v) @ [quote])
      in q4)"

text \<open>
  \<open>create_resolver\<close> is defined after \<open>resolve_continuous\<close>, which it calls.
\<close>

subsection \<open>Cancellation\<close>

text \<open>
  Modelled from the spec: \<^verbatim>\<open>cancel_all_registered\<close> belongs to the attempt registry, whose
  code is not in the source tree. The spec says that on cancellation the outstanding
  resolve attempts receive their socket cancellation and unwind; here they leave the
  registry.
\<close>

definition cancel_all_registered :: "'d resolver_impl \<Rightarrow> 'd resolver_impl" where
  "cancel_all_registered s = s\<lparr>attempts := []\<rparr>"

definition cancel_ongoing_resolve :: "'d resolver_impl \<Rightarrow> 'd resolver_impl" where
  "cancel_ongoing_resolve s =
     (let s1 = s\<lparr>expired := True\<rparr>;
          s2 = s1\<lparr>io := io s1 @ [Cancel_wave_timer]\<rparr>;
          s3 = s2\<lparr>io := io s2 @ [Cancel_unicast_timer]\<rparr>;
          s4 = s3\<lparr>io := io s3 @ [Cancel_resolve_timeout]\<rparr>
      in cancel_all_registered s4)"

definition cancel :: "'d resolver_impl \<Rightarrow> 'd resolver_impl" where
  "cancel s = cancel_ongoing_resolve (s\<lparr>cancelled := True\<rparr>)"

subsection \<open>Bursts\<close>

text \<open>
  The loop of \<^verbatim>\<open>udp_multicast_burst\<close> and of \<^verbatim>\<open>udp_unicast_burst\<close>: the two differ in the
  endpoint list, the RTT budget, the log level and the message only. The list argument
  is what remains of \<^verbatim>\<open>udp_protocols_\<close> from index \<open>k\<close> on, \<open>failures\<close> the loop's counter.
  The \<^verbatim>\<open>try\<close> body either registers and begins an attempt or throws; the \<^verbatim>\<open>catch\<close>
  counts the failure and logs when the count reaches the number of stacks.
\<close>

fun burst_loop ::
  "environment \<Rightarrow> verbosity \<Rightarrow> string \<Rightarrow> endpoint list \<Rightarrow> real \<Rightarrow>
   udp_protocol list \<Rightarrow> nat \<Rightarrow> 'd resolver_impl \<Rightarrow> 'd resolver_impl" where
  "burst_loop env lvl msg eps max_rtt [] failures s = s"
| "burst_loop env lvl msg eps max_rtt (p # ps) failures s =
     (case attempt_error env p eps of
        None \<Rightarrow>
          burst_loop env lvl msg eps max_rtt ps failures
            (s\<lparr>attempts := attempts s @ [Attempt p eps (query s) max_rtt],
               begun := begun s @ [Attempt p eps (query s) max_rtt]\<rparr>)
      | Some what \<Rightarrow>
          (if failures + 1 = length (udp_protocols s)
           then burst_loop env lvl msg eps max_rtt ps (failures + 1)
                  (s\<lparr>log := log s @ [(lvl, msg @ what)]\<rparr>)
           else burst_loop env lvl msg eps max_rtt ps (failures + 1) s))"

definition multicast_failure :: string where
  "multicast_failure =
     ''Could not start a multicast resolve attempt for any of the allowed protocol stacks: ''"

definition unicast_failure :: string where
  "unicast_failure =
     ''Could not start a unicast resolve attempt for any of the allowed protocol stacks: ''"

definition udp_multicast_burst :: "environment \<Rightarrow> 'd resolver_impl \<Rightarrow> 'd resolver_impl" where
  "udp_multicast_burst env s =
     burst_loop env ERROR multicast_failure (mcast_endpoints s) (multicast_max_rtt (cfg env))
       (udp_protocols s) 0 s"

text \<open>The argument \<open>aborted\<close> is \<^verbatim>\<open>err == error::operation_aborted\<close>.\<close>

definition udp_unicast_burst ::
  "environment \<Rightarrow> bool \<Rightarrow> 'd resolver_impl \<Rightarrow> 'd resolver_impl" where
  "udp_unicast_burst env aborted s =
     (if \<not> aborted
      then burst_loop env WARNING unicast_failure (ucast_endpoints s) (unicast_max_rtt (cfg env))
             (udp_protocols s) 0 s
      else s)"

subsection \<open>The wave scheduler\<close>

text \<open>
  The condition of the \<^verbatim>\<open>if\<close> in \<^verbatim>\<open>next_resolve_wave\<close>: \<^verbatim>\<open>minimum_\<close> as a truth value,
  the result count as a \<^verbatim>\<open>std::size_t\<close> against \<^verbatim>\<open>minimum_\<close> cast to \<^verbatim>\<open>std::size_t\<close>
  (sign-extended to 64 bits), and the clock against \<^verbatim>\<open>wait_until_\<close>.
\<close>

definition stopping_criteria :: "real \<Rightarrow> 'd resolver_impl \<Rightarrow> bool" where
  "stopping_criteria now s =
     (let num_results = (word_of_nat (length (results_map s)) :: 64 word)
      in cancelled s \<or> expired s \<or>
         (minimum s \<noteq> 0 \<and> (scast (minimum s) :: 64 word) \<le> num_results \<and> wait_until s \<le> now))"

text \<open>The \<^verbatim>\<open>else\<close> branch: the multicast burst, the unicast timer, the wave timer.\<close>

definition start_wave :: "environment \<Rightarrow> 'd resolver_impl \<Rightarrow> 'd resolver_impl" where
  "start_wave env s =
     (let s1 = udp_multicast_burst env s;
          wave_timer_timeout =
            (if fast_mode s1 then 0 else continuous_resolve_interval (cfg env)) +
            multicast_min_rtt (cfg env)
      in if ucast_endpoints s1 \<noteq> []
         then s1\<lparr>unicast_timer := Some (multicast_min_rtt (cfg env)),
                 wave_timer := Some (wave_timer_timeout + unicast_min_rtt (cfg env))\<rparr>
         else s1\<lparr>wave_timer := Some wave_timer_timeout\<rparr>)"

definition next_resolve_wave :: "environment \<Rightarrow> real \<Rightarrow> 'd resolver_impl \<Rightarrow> 'd resolver_impl" where
  "next_resolve_wave env now s =
     (if stopping_criteria now s then cancel_ongoing_resolve s else start_wave env s)"

subsection \<open>The result store\<close>

text \<open>
  \<^verbatim>\<open>results_\<close> is a \<^verbatim>\<open>std::map\<close> from the stream's uid to the pair of its descriptor and the
  time it was last seen: a list of entries in key order here. The loop of \<^verbatim>\<open>results\<close>
  walks the map once; it returns the entries it has not erased and the output vector.
\<close>

fun results_loop ::
  "real \<Rightarrow> 32 word \<Rightarrow> (string \<times> 'd \<times> real) list \<Rightarrow> 'd list \<Rightarrow>
   (string \<times> 'd \<times> real) list \<times> 'd list" where
  "results_loop expired_before max_results [] output = ([], output)"
| "results_loop expired_before max_results (it # rest) output =
     (if snd (snd it) < expired_before
      then results_loop expired_before max_results rest output
      else
        (let output' = (if length output < unat max_results then output @ [fst (snd it)] else output);
             r = results_loop expired_before max_results rest output'
         in (it # fst r, snd r)))"

definition results :: "real \<Rightarrow> 32 word \<Rightarrow> 'd resolver_impl \<Rightarrow> 'd list \<times> 'd resolver_impl" where
  "results now max_results s =
     (let expired_before = now - forget_after s;
          r = results_loop expired_before max_results (results_map s) []
      in (snd r, s\<lparr>results_map := fst r\<rparr>))"

text \<open>
  Modelled from the spec: \<open>upsert\<close> is done by the resolve attempt when it has parsed a
  reply; the attempt's code is not in the source tree. The spec says: if the key is
  present, only update \<open>last_seen\<close> to \<open>now\<close>; otherwise insert a new record. A new
  record takes its place in key order, as in a \<^verbatim>\<open>std::map\<close>.
\<close>

fun upsert ::
  "string \<Rightarrow> 'd \<Rightarrow> real \<Rightarrow> (string \<times> 'd \<times> real) list \<Rightarrow> (string \<times> 'd \<times> real) list" where
  "upsert k d now [] = [(k, d, now)]"
| "upsert k d now (e # rest) =
     (if k = fst e then (fst e, fst (snd e), now) # rest
      else if k < fst e then (k, d, now) # e # rest
      else e # upsert k d now rest)"

subsection \<open>The I/O context\<close>

text \<open>
  What \<^verbatim>\<open>io_->run()\<close> executes is decided by the network, the clock and other threads:
  the run is given as the list of the events that occur while it lasts, each handled
  by the handler the source has registered for it.
  \<^item> \<open>Wave_timer_fires now\<close>: the wave timer expires at clock value \<open>now\<close>; its handler
    calls \<open>next_resolve_wave\<close>.
  \<^item> \<open>Unicast_timer_fires\<close>: the unicast timer expires; its handler is
    \<open>udp_unicast_burst\<close>.
  \<^item> \<open>Resolve_timeout_fires\<close>: the timeout of \<open>resolve_oneshot\<close> expires; its handler
    calls \<open>cancel_ongoing_resolve\<close>.
  \<^item> \<open>Run_posted\<close>: the oldest posted handler runs, cancelling its timer; the wait
    that was pending on the timer completes with \<^verbatim>\<open>operation_aborted\<close>.
  \<^item> \<open>Reply uid info now\<close>: an attempt under way parses a reply at clock value \<open>now\<close>
    and stores it.
  \<^item> \<open>Attempt_ends\<close>: the oldest attempt's RTT budget elapses.
  \<^item> \<open>Cancel_called\<close>: another thread calls \<open>cancel\<close>.
\<close>

datatype 'd event =
    Wave_timer_fires real
  | Unicast_timer_fires
  | Resolve_timeout_fires
  | Run_posted
  | Reply string 'd real
  | Attempt_ends
  | Cancel_called

fun run_handler :: "environment \<Rightarrow> handler \<Rightarrow> 'd resolver_impl \<Rightarrow> 'd resolver_impl" where
  "run_handler env Cancel_wave_timer s = s\<lparr>wave_timer := None\<rparr>"
| "run_handler env Cancel_unicast_timer s =
     (case unicast_timer s of
        None \<Rightarrow> s
      | Some d \<Rightarrow> udp_unicast_burst env True (s\<lparr>unicast_timer := None\<rparr>))"
| "run_handler env Cancel_resolve_timeout s = s\<lparr>resolve_timeout_expired := None\<rparr>"

fun io_step :: "environment \<Rightarrow> 'd event \<Rightarrow> 'd resolver_impl \<Rightarrow> 'd resolver_impl" where
  "io_step env (Wave_timer_fires now) s =
     (case wave_timer s of
        None \<Rightarrow> s
      | Some d \<Rightarrow> next_resolve_wave env now (s\<lparr>wave_timer := None\<rparr>))"
| "io_step env Unicast_timer_fires s =
     (case unicast_timer s of
        None \<Rightarrow> s
      | Some d \<Rightarrow> udp_unicast_burst env False (s\<lparr>unicast_timer := None\<rparr>))"
| "io_step env Resolve_timeout_fires s =
     (case resolve_timeout_expired s of
        None \<Rightarrow> s
      | Some d \<Rightarrow> cancel_ongoing_resolve (s\<lparr>resolve_timeout_expired := None\<rparr>))"
| "io_step env Run_posted s =
     (case io s of
        [] \<Rightarrow> s
      | h # hs \<Rightarrow> run_handler env h (s\<lparr>io := hs\<rparr>))"
| "io_step env (Reply uid info now) s =
     (if attempts s = [] then s else s\<lparr>results_map := upsert uid info now (results_map s)\<rparr>)"
| "io_step env Attempt_ends s = s\<lparr>attempts := tl (attempts s)\<rparr>"
| "io_step env Cancel_called s = cancel s"

fun io_run :: "environment \<Rightarrow> 'd event list \<Rightarrow> 'd resolver_impl \<Rightarrow> 'd resolver_impl" where
  "io_run env [] s = s"
| "io_run env (e # es) s = io_run env es (io_step env e s)"

subsection \<open>The resolve functions\<close>

text \<open>
  \<open>resolve_oneshot\<close> returns the exception it throws or the vector it returns, and the
  resolver's state afterwards. \<open>now\<close> is the clock when the call starts, \<open>evs\<close> what
  happens while \<^verbatim>\<open>io_->run()\<close> runs on the caller's thread. \<^verbatim>\<open>io_->restart()\<close> only
  clears the context's stopped flag, which the state does not record. The first wave
  is given the same clock value: it never gets to read the clock, since the store has
  just been cleared and no non-zero minimum is reached.
\<close>

definition resolve_oneshot ::
  "environment \<Rightarrow> string \<Rightarrow> 32 word \<Rightarrow> real \<Rightarrow> real \<Rightarrow> real \<Rightarrow> 'd event list \<Rightarrow>
   'd resolver_impl \<Rightarrow> (exception + 'd list) \<times> 'd resolver_impl" where
  "resolve_oneshot env q minimum_count timeout minimum_time now evs s =
     (case check_query env q of
        Inl e \<Rightarrow> (Inl e, s)
      | Inr u \<Rightarrow>
          (let s1 = s\<lparr>query := q,
                      minimum := minimum_count,
                      wait_until := now + minimum_time,
                      results_map := [],
                      forget_after := FOREVER env,
                      fast_mode := True,
                      expired := False\<rparr>;
               s2 = (if timeout \<noteq> FOREVER env
                     then s1\<lparr>resolve_timeout_expired := Some timeout\<rparr>
                     else s1);
               s3 = next_resolve_wave env now s2
           in if \<not> cancelled s3
              then (let s4 = io_run env evs s3
                    in (Inr (map (\<lambda>result. fst (snd result)) (results_map s4)), s4))
              else (Inr [], s3)))"

text \<open>
  \<open>resolve_continuous\<close> returns once the background thread is spawned; what that
  thread runs afterwards is a later \<open>io_run\<close>. Its first wave does not read the clock
  either, the minimum being 0.
\<close>

definition resolve_continuous ::
  "environment \<Rightarrow> string \<Rightarrow> real \<Rightarrow> real \<Rightarrow> 'd resolver_impl \<Rightarrow>
   (exception + unit) \<times> 'd resolver_impl" where
  "resolve_continuous env q forget now s =
     (case check_query env q of
        Inl e \<Rightarrow> (Inl e, s)
      | Inr u \<Rightarrow>
          (let s1 = s\<lparr>query := q,
                      minimum := 0,
                      wait_until := 0,
                      results_map := [],
                      forget_after := forget,
                      fast_mode := False,
                      expired := False\<rparr>;
               s2 = next_resolve_wave env now s1
           in (Inr (), s2\<lparr>background_io := True\<rparr>)))"

text \<open>
  \<open>create_resolver\<close> returns the resolver, or \<open>None\<close> for the null pointer together
  with the line it logs.
\<close>

definition create_resolver ::
  "environment \<Rightarrow> real \<Rightarrow> string option \<Rightarrow> string option \<Rightarrow> real \<Rightarrow>
   'd resolver_impl option \<times> (verbosity \<times> string) list" where
  "create_resolver env forget pred_or_prop val now =
     (case resolve_continuous env (build_query env pred_or_prop val) forget now
             (new_resolver_impl env) of
        (Inr u, resolver) \<Rightarrow> (Some resolver, [])
      | (Inl (Invalid_argument what), resolver) \<Rightarrow>
          (None, [(ERROR, ''Error while creating a continuous_resolver: '' @ what)]))"

subsection \<open>Notions of the specification\<close>

text \<open>
  The entries that a snapshot with threshold \<open>expired_before\<close> leaves in the store: those
  whose \<open>last_seen\<close> is not below the threshold.
\<close>

definition surviving ::
  "real \<Rightarrow> (string \<times> 'd \<times> real) list \<Rightarrow> (string \<times> 'd \<times> real) list" where
  "surviving expired_before m = filter (\<lambda>it. \<not> snd (snd it) < expired_before) m"

text \<open>
  The descriptor that the store holds under \<open>k\<close> once \<open>upsert k d\<close> is done: \<open>d\<close> for a
  new key, the descriptor already there otherwise.
\<close>

definition stored_descriptor :: "string \<Rightarrow> 'd \<Rightarrow> (string \<times> 'd \<times> real) list \<Rightarrow> 'd" where
  "stored_descriptor k d m = (case map_of m k of None \<Rightarrow> d | Some old \<Rightarrow> fst old)"

text \<open>The invariant of a \<^verbatim>\<open>std::map\<close>: the keys are in strictly increasing order.\<close>

definition key_ordered :: "(string \<times> 'd \<times> real) list \<Rightarrow> bool" where
  "key_ordered m = sorted_wrt (<) (map fst m)"

text \<open>
  The stop condition of the wave scheduler, in the specification's words: the flags,
  the minimum count and the result count as numbers, the clock and \<open>wait_until\<close>.
\<close>

definition stop :: "bool \<Rightarrow> bool \<Rightarrow> int \<Rightarrow> nat \<Rightarrow> real \<Rightarrow> real \<Rightarrow> bool" where
  "stop is_cancelled is_expired minimum_count result_count now until =
     (is_cancelled \<or> is_expired \<or>
      (minimum_count > 0 \<and> int result_count \<ge> minimum_count \<and> now \<ge> until))"

text \<open>
  What one burst adds to the resolver: the attempts of the stacks whose attempt starts,
  in the order of the stacks, and the lines it logs when the loop's counter starts at
  \<open>failures\<close> and \<open>n\<close> stacks are allowed.
\<close>

definition started :: "environment \<Rightarrow> endpoint list \<Rightarrow> string \<Rightarrow> real \<Rightarrow> udp_protocol list \<Rightarrow> attempt list" where
  "started env eps q max_rtt ps =
     map (\<lambda>p. Attempt p eps q max_rtt) (filter (\<lambda>p. attempt_error env p eps = None) ps)"

fun failure_log ::
  "environment \<Rightarrow> verbosity \<Rightarrow> string \<Rightarrow> endpoint list \<Rightarrow> nat \<Rightarrow> udp_protocol list \<Rightarrow> nat \<Rightarrow>
   (verbosity \<times> string) list" where
  "failure_log env lvl msg eps n [] failures = []"
| "failure_log env lvl msg eps n (p # ps) failures =
     (case attempt_error env p eps of
        None \<Rightarrow> failure_log env lvl msg eps n ps failures
      | Some what \<Rightarrow>
          (if failures + 1 = n then [(lvl, msg @ what)] else []) @
          failure_log env lvl msg eps n ps (failures + 1))"

text \<open>
  The I/O context has no work left: no handler is posted, no wait is pending on a
  timer and no attempt is under way. \<^verbatim>\<open>io_->run()\<close> returns in such a state.
\<close>

definition out_of_work :: "'d resolver_impl \<Rightarrow> bool" where
  "out_of_work s =
     (io s = [] \<and> wave_timer s = None \<and> unicast_timer s = None \<and>
      resolve_timeout_expired s = None \<and> attempts s = [])"

text \<open>
  The operations of the facade and the activity of the I/O context, as one type, to
  speak about every sequence of them. A call that throws leaves the state it found.
\<close>

datatype 'd operation =
    Resolve_oneshot string "32 word" real real real "'d event list"
  | Resolve_continuous string real real
  | Results real "32 word"
  | Cancel
  | Io_run "'d event list"

fun perform :: "environment \<Rightarrow> 'd operation \<Rightarrow> 'd resolver_impl \<Rightarrow> 'd resolver_impl" where
  "perform env (Resolve_oneshot q minimum_count timeout minimum_time now evs) s =
     snd (resolve_oneshot env q minimum_count timeout minimum_time now evs s)"
| "perform env (Resolve_continuous q forget now) s = snd (resolve_continuous env q forget now s)"
| "perform env (Results now max_results) s = snd (results now max_results s)"
| "perform env Cancel s = cancel s"
| "perform env (Io_run evs) s = io_run env evs s"

fun perform_all :: "environment \<Rightarrow> 'd operation list \<Rightarrow> 'd resolver_impl \<Rightarrow> 'd resolver_impl" where
  "perform_all env [] s = s"
| "perform_all env (op # ops) s = perform_all env ops (perform env op s)"

subsection \<open>Example inputs\<close>

definition example_cfg :: api_config where
  "example_cfg =
     \<lparr> multicast_addresses = [''224.0.0.183'', ''ff02::1''],
       multicast_port = 16571,
       known_peers = [''labhost''],
       base_port = 16572,
       port_range = 2,
       allow_ipv6 = True,
       allow_ipv4 = True,
       session_id = ''default'',
       multicast_min_rtt = 1 / 2,
       multicast_max_rtt = 3,
       unicast_min_rtt = 3 / 4,
       unicast_max_rtt = 5,
       continuous_resolve_interval = 1 / 2 \<rparr>"

definition example_env :: environment where
  "example_env =
     \<lparr> cfg = example_cfg,
       FOREVER = 32000000,
       xpath_error = (\<lambda>q. if q = ''not a valid predicate'' then Some ''syntax error'' else None),
       make_address = Some,
       resolve_peer = (\<lambda>h. Some [''10.0.0.7'']),
       attempt_error = (\<lambda>p eps. None) \<rparr>"

definition example_store :: "(string \<times> string \<times> real) list" where
  "example_store = [(''uid1'', ''info1'', 4), (''uid2'', ''info2'', 9), (''uid3'', ''info3'', 8)]"

definition example_resolver :: "string resolver_impl" where
  "example_resolver =
     (new_resolver_impl example_env)\<lparr>forget_after := 3, results_map := example_store\<rparr>"

text \<open>Environments in which no socket opens, and in which the IPv6 stack alone fails.\<close>

definition example_env_down :: environment where
  "example_env_down = example_env\<lparr>attempt_error := (\<lambda>p eps. Some ''no socket'')\<rparr>"

definition example_env_v6_down :: environment where
  "example_env_v6_down =
     example_env\<lparr>attempt_error := (\<lambda>p eps. if p = V6 then Some ''no IPv6'' else None)\<rparr>"

text \<open>A resolver as constructed, and one that is in the middle of a one-shot resolve.\<close>

definition fresh_resolver :: "string resolver_impl" where
  "fresh_resolver = new_resolver_impl example_env"

definition waiting_resolver :: "string resolver_impl" where
  "waiting_resolver =
     fresh_resolver\<lparr>query := build_query example_env None None, minimum := 2, wait_until := 7,
                    results_map := example_store\<rparr>"

text \<open>
  A one-shot resolve during which one reply arrives and another thread then calls
  \<open>cancel\<close>; the three posted handlers run before the I/O context runs out of work.
\<close>

definition interrupted_call :: "(exception + string list) \<times> string resolver_impl" where
  "interrupted_call =
     resolve_oneshot example_env (build_query example_env None None) 1 5 0 0
       [Reply ''uid1'' ''info1'' (1 / 10), Cancel_called, Run_posted, Run_posted, Run_posted]
       fresh_resolver"

text \<open>What a caller may do with a resolver after it has cancelled it.\<close>

definition example_history :: "string operation list" where
  "example_history =
     [Resolve_continuous (build_query example_env None None) 3 0, Results 1 5,
      Io_run [Run_posted, Wave_timer_fires 2]]"

section \<open>Properties of the result store\<close>

lemma results_loop_kept:
  "fst (results_loop e m xs out) = surviving e xs"
  by (induction xs arbitrary: out) (simp_all add: surviving_def Let_def)

lemma results_loop_length:
  "length (snd (results_loop e m xs out)) \<le> max (length out) (unat m)"
proof (induction xs arbitrary: out)
  case Nil
  then show ?case by simp
next
  case (Cons it rest)
  have "length (snd (results_loop e m rest (out @ [fst (snd it)]))) \<le> max (Suc (length out)) (unat m)"
    using Cons.IH [of "out @ [fst (snd it)]"] by simp
  with Cons.IH [of out] show ?case
    by (auto simp: Let_def)
qed

lemma results_loop_all:
  "length out + length (surviving e xs) \<le> unat m \<Longrightarrow>
   snd (results_loop e m xs out) = out @ map (\<lambda>it. fst (snd it)) (surviving e xs)"
  by (induction xs arbitrary: out) (auto simp: surviving_def Let_def)

lemma map_of_below:
  "key_ordered (e # rest) \<Longrightarrow> k < fst e \<Longrightarrow> map_of (e # rest) k = None"
  by (force simp: key_ordered_def map_of_eq_None_iff)

lemma upsert_stored:
  "key_ordered m \<Longrightarrow> (k, stored_descriptor k d m, t) \<in> set (upsert k d t m)"
proof (induction m)
  case Nil
  then show ?case by (simp add: stored_descriptor_def)
next
  case (Cons e rest)
  have rest: "key_ordered rest" using Cons.prems by (simp add: key_ordered_def)
  consider "k = fst e" | "k < fst e" | "k \<noteq> fst e" "\<not> k < fst e" by blast
  then show ?case
  proof cases
    case 1
    then show ?thesis by (cases e) (simp add: stored_descriptor_def)
  next
    case 2
    then have "map_of (e # rest) k = None" using Cons.prems by (rule map_of_below [rotated])
    with 2 show ?thesis by (auto simp: stored_descriptor_def)
  next
    case 3
    then have "stored_descriptor k d (e # rest) = stored_descriptor k d rest"
      by (cases e) (simp add: stored_descriptor_def)
    with 3 Cons.IH [OF rest] show ?thesis by simp
  qed
qed

lemma upsert_keys:
  "fst ` set (upsert k d t m) \<subseteq> insert k (fst ` set m)"
  by (induction m) auto

text \<open>\<open>upsert\<close> keeps the store in key order, and a snapshot does too.\<close>

lemma upsert_key_ordered:
  "key_ordered m \<Longrightarrow> key_ordered (upsert k d t m)"
proof (induction m)
  case Nil
  then show ?case by (simp add: key_ordered_def)
next
  case (Cons e rest)
  have "fst e < fst x" if "x \<in> set (upsert k d t rest)" "\<not> k < fst e" "k \<noteq> fst e" for x
  proof -
    have "fst x = k \<or> fst x \<in> fst ` set rest"
      using upsert_keys [of k d t rest] that(1) by blast
    then show ?thesis
      using Cons.prems that(2,3) by (auto simp: key_ordered_def)
  qed
  with Cons show ?case
    by (auto simp: key_ordered_def)
qed

lemma results_key_ordered:
  "key_ordered (results_map s) \<Longrightarrow> key_ordered (results_map (snd (results now m s)))"
  by (simp add: results_def Let_def results_loop_kept surviving_def key_ordered_def
      sorted_wrt_map sorted_wrt_filter)

text \<open>
  C5. For every state of the result store and every \<open>max_results\<close>, the list that
  \<open>results max_results\<close> returns has at most \<open>max_results\<close> descriptors.
\<close>

theorem results_at_most_max_results:
  "length (fst (results now max_results s)) \<le> unat max_results"
  using results_loop_length [of "now - forget_after s" max_results "results_map s" "[]"]
  by (simp add: results_def Let_def)

theorem results_at_most_max_results_witness:
  "fst (results 10 1 example_resolver) = [''info2''] \<and>
   length (fst (results 10 1 example_resolver)) \<le> unat (1 :: 32 word)"
  using results_at_most_max_results [of 10 1 example_resolver]
  by (simp add: results_def example_resolver_def example_store_def Let_def)

text \<open>
  C6. After a call of \<open>results\<close> at clock value \<open>now\<close>, every entry still in the store has
  a \<open>last_seen\<close> of at least \<open>expired_before = now - forget_after\<close>, whether or not the
  entry was returned: the cap on the output plays no part in what is erased.
\<close>

theorem results_leaves_no_stale_entry:
  "\<forall>it \<in> set (results_map (snd (results now max_results s))).
     now - forget_after s \<le> snd (snd it)"
  by (auto simp: results_def Let_def results_loop_kept surviving_def)

theorem results_leaves_no_stale_entry_witness:
  "results_map (snd (results 10 1 example_resolver)) =
     [(''uid2'', ''info2'', 9), (''uid3'', ''info3'', 8)] \<and>
   fst (results 10 1 example_resolver) = [''info2''] \<and>
   10 - forget_after example_resolver \<le> snd (snd (''uid3'', ''info3'', 8 :: real))"
proof -
  have store: "results_map (snd (results 10 1 example_resolver)) =
      [(''uid2'', ''info2'', 9), (''uid3'', ''info3'', 8)]"
    by (simp add: results_def example_resolver_def example_store_def Let_def)
  have out: "fst (results 10 1 example_resolver) = [''info2'']"
    by (simp add: results_def example_resolver_def example_store_def Let_def)
  have "(''uid3'', ''info3'', 8) \<in> set (results_map (snd (results 10 1 example_resolver)))"
    by (simp add: store)
  then have "10 - forget_after example_resolver \<le> snd (snd (''uid3'', ''info3'', 8 :: real))"
    by (rule results_leaves_no_stale_entry [of 10 1 example_resolver, rule_format])
  with store out show ?thesis by simp
qed

text \<open>
  C2, as the specification states it: after \<open>upsert k d t\<close>, a snapshot with threshold
  \<open>e \<le> t\<close> returns \<open>d\<close>, whatever \<open>max_results\<close> is. The code caps the output: with
  \<open>max_results = 0\<close> the snapshot of a store that holds the one fresh entry is empty.
\<close>

theorem upsert_then_results_counterexample:
  "10 - forget_after (new_resolver_impl example_env :: string resolver_impl) \<le> 9 \<and>
   ''info'' \<notin> set (fst (results 10 0
        ((new_resolver_impl example_env)\<lparr>results_map := upsert ''uid'' ''info'' 9 []\<rparr>)))"
  by (simp add: results_def new_resolver_impl_def example_env_def Let_def)

text \<open>
  C2, amended: after \<open>upsert k d t\<close> on a store in key order, a snapshot at clock value
  \<open>now\<close> with \<open>now - forget_after \<le> t\<close> and with \<open>max_results\<close> at least the number of
  surviving entries returns the descriptor that the store holds under \<open>k\<close>: \<open>d\<close> itself
  when the key was new, the descriptor recorded earlier when it was not (the upsert
  then refreshes \<open>last_seen\<close> only).
\<close>

theorem upsert_then_results_returns_stored:
  assumes "key_ordered (results_map s)"
      and "now - forget_after s \<le> t"
      and "length (surviving (now - forget_after s) (upsert k d t (results_map s)))
           \<le> unat max_results"
  shows "stored_descriptor k d (results_map s)
         \<in> set (fst (results now max_results (s\<lparr>results_map := upsert k d t (results_map s)\<rparr>)))"
proof -
  let ?e = "now - forget_after s"
  let ?m = "upsert k d t (results_map s)"
  have "(k, stored_descriptor k d (results_map s), t) \<in> set (surviving ?e ?m)"
    using assms(2) upsert_stored [OF assms(1), of k d t] by (simp add: surviving_def)
  then have "stored_descriptor k d (results_map s)
      \<in> set (map (\<lambda>it. fst (snd it)) (surviving ?e ?m))"
    by force
  moreover have "snd (results_loop ?e max_results ?m []) =
      map (\<lambda>it. fst (snd it)) (surviving ?e ?m)"
    using results_loop_all [of "[]" ?e ?m max_results] assms(3) by simp
  ultimately show ?thesis
    by (simp add: results_def Let_def)
qed

theorem upsert_then_results_returns_stored_witness:
  "key_ordered (results_map example_resolver) \<and>
   10 - forget_after example_resolver \<le> 11 \<and>
   stored_descriptor ''uid4'' ''info4'' (results_map example_resolver) = ''info4'' \<and>
   stored_descriptor ''uid2'' ''other'' (results_map example_resolver) = ''info2'' \<and>
   ''info4'' \<in> set (fst (results 10 3
      (example_resolver\<lparr>results_map := upsert ''uid4'' ''info4'' 11 (results_map example_resolver)\<rparr>))) \<and>
   ''info2'' \<in> set (fst (results 10 2
      (example_resolver\<lparr>results_map := upsert ''uid2'' ''other'' 11 (results_map example_resolver)\<rparr>)))"
proof -
  have ord: "key_ordered (results_map example_resolver)"
    by (simp add: key_ordered_def example_resolver_def example_store_def)
  have fresh: "10 - forget_after example_resolver \<le> 11"
    by (simp add: example_resolver_def)
  have new: "stored_descriptor ''uid4'' ''info4'' (results_map example_resolver) = ''info4''"
    by (simp add: stored_descriptor_def example_resolver_def example_store_def)
  have old: "stored_descriptor ''uid2'' ''other'' (results_map example_resolver) = ''info2''"
    by (simp add: stored_descriptor_def example_resolver_def example_store_def)
  have cap4: "length (surviving (10 - forget_after example_resolver)
      (upsert ''uid4'' ''info4'' 11 (results_map example_resolver))) \<le> unat (3 :: 32 word)"
    by (simp add: surviving_def example_resolver_def example_store_def)
  have cap2: "length (surviving (10 - forget_after example_resolver)
      (upsert ''uid2'' ''other'' 11 (results_map example_resolver))) \<le> unat (2 :: 32 word)"
    by (simp add: surviving_def example_resolver_def example_store_def)
  from upsert_then_results_returns_stored [OF ord fresh cap4]
    upsert_then_results_returns_stored [OF ord fresh cap2] ord fresh new old
  show ?thesis by simp
qed

section \<open>Properties of the bursts\<close>

lemma burst_loop_eq:
  "burst_loop env lvl msg eps max_rtt ps failures s =
     s\<lparr>attempts := attempts s @ started env eps (query s) max_rtt ps,
       begun := begun s @ started env eps (query s) max_rtt ps,
       log := log s @ failure_log env lvl msg eps (length (udp_protocols s)) ps failures\<rparr>"
proof (induction ps arbitrary: failures s)
  case Nil
  then show ?case by (simp add: started_def)
next
  case (Cons p ps)
  show ?case
  proof (cases "attempt_error env p eps")
    case None
    then show ?thesis by (simp add: Cons.IH started_def)
  next
    case (Some what)
    then show ?thesis by (simp add: Cons.IH started_def)
  qed
qed

lemma failure_log_silent:
  "n \<le> failures \<or> failures + length (filter (\<lambda>p. attempt_error env p eps \<noteq> None) ps) < n \<Longrightarrow>
   failure_log env lvl msg eps n ps failures = []"
  by (induction ps arbitrary: failures) (auto split: option.splits)

lemma failure_log_all_fail:
  "ps \<noteq> [] \<Longrightarrow> \<forall>p \<in> set ps. attempt_error env p eps \<noteq> None \<Longrightarrow> failures + length ps = n \<Longrightarrow>
   failure_log env lvl msg eps n ps failures = [(lvl, msg @ the (attempt_error env (last ps) eps))]"
proof (induction ps arbitrary: failures)
  case Nil
  then show ?case by simp
next
  case (Cons p ps)
  then obtain what where w: "attempt_error env p eps = Some what" by auto
  show ?case
  proof (cases "ps = []")
    case True
    with Cons.prems w show ?thesis by simp
  next
    case False
    with Cons.prems have "failures + 1 \<noteq> n" by (cases ps) auto
    moreover have "failure_log env lvl msg eps n ps (failures + 1) =
        [(lvl, msg @ the (attempt_error env (last ps) eps))]"
      using Cons.prems False by (intro Cons.IH) auto
    ultimately show ?thesis using w False by simp
  qed
qed

lemma failure_log_top:
  "failure_log env lvl msg eps (length ps) ps 0 =
     (if ps \<noteq> [] \<and> (\<forall>p \<in> set ps. attempt_error env p eps \<noteq> None)
      then [(lvl, msg @ the (attempt_error env (last ps) eps))] else [])"
proof (cases "ps \<noteq> [] \<and> (\<forall>p \<in> set ps. attempt_error env p eps \<noteq> None)")
  case True
  then show ?thesis using failure_log_all_fail [of ps env eps 0 "length ps" lvl msg] by simp
next
  case False
  have "length (filter (\<lambda>p. attempt_error env p eps \<noteq> None) ps) < length ps" if "ps \<noteq> []"
    using False that length_filter_less [of _ ps "\<lambda>p. attempt_error env p eps \<noteq> None"] by auto
  then have "failure_log env lvl msg eps (length ps) ps 0 = []"
    by (cases "ps = []") (simp_all add: failure_log_silent)
  with False show ?thesis by auto
qed

lemma cancel_ongoing_resolve_eq:
  "cancel_ongoing_resolve s =
     s\<lparr>expired := True,
       io := io s @ [Cancel_wave_timer, Cancel_unicast_timer, Cancel_resolve_timeout],
       attempts := []\<rparr>"
  by (simp add: cancel_ongoing_resolve_def cancel_all_registered_def Let_def)

lemma udp_multicast_burst_eq:
  "udp_multicast_burst env s =
     s\<lparr>attempts := attempts s @
          started env (mcast_endpoints s) (query s) (multicast_max_rtt (cfg env)) (udp_protocols s),
       begun := begun s @
          started env (mcast_endpoints s) (query s) (multicast_max_rtt (cfg env)) (udp_protocols s),
       log := log s @
          failure_log env ERROR multicast_failure (mcast_endpoints s)
            (length (udp_protocols s)) (udp_protocols s) 0\<rparr>"
  by (simp add: udp_multicast_burst_def burst_loop_eq)

lemma udp_unicast_burst_eq:
  "udp_unicast_burst env False s =
     s\<lparr>attempts := attempts s @
          started env (ucast_endpoints s) (query s) (unicast_max_rtt (cfg env)) (udp_protocols s),
       begun := begun s @
          started env (ucast_endpoints s) (query s) (unicast_max_rtt (cfg env)) (udp_protocols s),
       log := log s @
          failure_log env WARNING unicast_failure (ucast_endpoints s)
            (length (udp_protocols s)) (udp_protocols s) 0\<rparr>"
  by (simp add: udp_unicast_burst_def burst_loop_eq)

lemma udp_unicast_burst_aborted: "udp_unicast_burst env True s = s"
  by (simp add: udp_unicast_burst_def)

lemma check_query_valid: "xpath_error env q = None \<Longrightarrow> check_query env q = Inr ()"
  by (simp add: check_query_def)

lemma query_next_resolve_wave [simp]: "query (next_resolve_wave env now s) = query s"
  by (simp add: next_resolve_wave_def cancel_ongoing_resolve_eq start_wave_def
      udp_multicast_burst_eq Let_def)

text \<open>
  C8. Within a burst every allowed stack whose attempt can start does start, whether or
  not the attempt of another stack fails: the attempts begun are those of \<open>started\<close>.
  The burst logs one line, \<open>ERROR\<close> for a multicast burst and \<open>WARNING\<close> for a unicast
  burst, when the attempts of all allowed stacks fail, and nothing otherwise. The
  resolve calls return normally whatever the attempts do. At least one stack is
  allowed: the configuration option is one of disable, force and allow.
\<close>

theorem burst_tolerates_stack_failures:
  assumes "udp_protocols s \<noteq> []"
  shows "begun (udp_multicast_burst env s) =
       begun s @ started env (mcast_endpoints s) (query s) (multicast_max_rtt (cfg env))
                   (udp_protocols s) \<and>
     log (udp_multicast_burst env s) =
       log s @
       (if \<forall>p \<in> set (udp_protocols s). attempt_error env p (mcast_endpoints s) \<noteq> None
        then [(ERROR, multicast_failure @
                 the (attempt_error env (last (udp_protocols s)) (mcast_endpoints s)))]
        else []) \<and>
     begun (udp_unicast_burst env False s) =
       begun s @ started env (ucast_endpoints s) (query s) (unicast_max_rtt (cfg env))
                   (udp_protocols s) \<and>
     log (udp_unicast_burst env False s) =
       log s @
       (if \<forall>p \<in> set (udp_protocols s). attempt_error env p (ucast_endpoints s) \<noteq> None
        then [(WARNING, unicast_failure @
                 the (attempt_error env (last (udp_protocols s)) (ucast_endpoints s)))]
        else []) \<and>
     (xpath_error env q = None \<longrightarrow>
        fst (resolve_continuous env q forget now s) = Inr () \<and>
        (\<exists>out. fst (resolve_oneshot env q minimum_count timeout minimum_time now evs s) = Inr out))"
  using assms
  by (simp add: udp_multicast_burst_eq udp_unicast_burst_eq failure_log_top
      resolve_continuous_def resolve_oneshot_def check_query_valid Let_def)

theorem burst_tolerates_stack_failures_witness:
  "udp_protocols fresh_resolver = [V6, V4] \<and>
   begun (udp_multicast_burst example_env_v6_down fresh_resolver) =
     [Attempt V4 (mcast_endpoints fresh_resolver) [] 3] \<and>
   log (udp_multicast_burst example_env_v6_down fresh_resolver) = [] \<and>
   begun (udp_multicast_burst example_env_down fresh_resolver) = [] \<and>
   log (udp_multicast_burst example_env_down fresh_resolver) =
     [(ERROR, multicast_failure @ ''no socket'')] \<and>
   log (udp_unicast_burst example_env_down False fresh_resolver) =
     [(WARNING, unicast_failure @ ''no socket'')] \<and>
   fst (resolve_continuous example_env_down (build_query example_env_down None None) 3 0
          fresh_resolver) = Inr ()"
proof -
  have ps: "udp_protocols fresh_resolver = [V6, V4]"
    by (simp add: fresh_resolver_def new_resolver_impl_def example_env_def example_cfg_def)
  then have ne: "udp_protocols fresh_resolver \<noteq> []" by simp
  have valid: "xpath_error example_env_down (build_query example_env_down None None) = None"
    by (simp add: example_env_down_def example_env_def example_cfg_def build_query_def)
  have empty: "begun fresh_resolver = []" "log fresh_resolver = []" "query fresh_resolver = []"
    by (simp_all add: fresh_resolver_def new_resolver_impl_def)
  from burst_tolerates_stack_failures [OF ne, of example_env_v6_down
      "build_query example_env_down None None" 3 0 1 5 0 "[]"]
    burst_tolerates_stack_failures [OF ne, of example_env_down
      "build_query example_env_down None None" 3 0 1 5 0 "[]"] valid
  show ?thesis
    by (simp add: ps empty started_def example_env_v6_down_def example_env_down_def
        example_env_def example_cfg_def)
qed

section \<open>Properties of the wave scheduler\<close>

text \<open>
  The comparison of the result count with \<^verbatim>\<open>(std::size_t)minimum_\<close>: a negative minimum
  becomes a value no store reaches.
\<close>

lemma minimum_cast_compare:
  fixes m :: "32 word" and n :: nat
  assumes "n < 2 ^ 63"
  shows "(m \<noteq> 0 \<and> (scast m :: 64 word) \<le> word_of_nat n) \<longleftrightarrow> (0 < sint m \<and> sint m \<le> int n)"
proof -
  have lo: "- (2 ^ 31) \<le> sint m" using sint_ge [of m] by simp
  have hi: "sint m < 2 ^ 31" using sint_lt [of m] by simp
  have zero: "m = 0 \<longleftrightarrow> sint m = 0"
    using signed_eq_0_iff [of m, where ?'a = int] by simp
  have n: "uint (word_of_nat n :: 64 word) = int n"
    using assms by (simp add: uint_nat unat_of_nat)
  have u: "uint (scast m :: 64 word) = sint m mod 2 ^ 64"
    by (simp only: scast_eq uint_word_of_int) simp
  show ?thesis
  proof (cases "0 < sint m")
    case True
    then have "sint m mod 2 ^ 64 = sint m" using hi by simp
    with True zero show ?thesis by (simp add: word_le_def n u)
  next
    case False
    show ?thesis
    proof (cases "sint m = 0")
      case True
      with zero show ?thesis by simp
    next
      case neg: False
      with False have "sint m < 0" by simp
      have "(sint m + 2 ^ 64) mod 2 ^ 64 = sint m + 2 ^ 64"
        using lo \<open>sint m < 0\<close> by (intro mod_pos_pos_trivial) simp_all
      moreover have "(sint m + 2 ^ 64) mod 2 ^ 64 = sint m mod 2 ^ 64"
        by (rule mod_add_self2)
      ultimately have "sint m mod 2 ^ 64 = sint m + 2 ^ 64" by simp
      with lo assms False show ?thesis by (simp add: word_le_def n u)
    qed
  qed
qed

lemma stopping_criteria_stop:
  assumes "length (results_map s) < 2 ^ 63"
  shows "stopping_criteria now s =
     stop (cancelled s) (expired s) (sint (minimum s)) (length (results_map s)) now (wait_until s)"
  unfolding stopping_criteria_def stop_def Let_def
  using minimum_cast_compare [OF assms, of "minimum s"] by blast

text \<open>
  A wave that finds the store empty decides without the clock: this is the first wave
  of \<open>resolve_oneshot\<close> and of \<open>resolve_continuous\<close>, which have just cleared the store.
\<close>

lemma first_wave_ignores_clock:
  assumes "results_map s = []"
  shows "stopping_criteria now s = stopping_criteria now' s"
proof -
  have "(0 :: nat) < 2 ^ 63" by simp
  from minimum_cast_compare [OF this, of "minimum s"]
  have "(minimum s \<noteq> 0 \<and> (scast (minimum s) :: 64 word) \<le> word_of_nat 0) =
      (0 < sint (minimum s) \<and> sint (minimum s) \<le> int 0)" .
  then have "\<not> (minimum s \<noteq> 0 \<and> (scast (minimum s) :: 64 word) \<le> word_of_nat 0)"
    by (simp only: int_ops) linarith
  then show ?thesis
    using assms by (auto simp: stopping_criteria_def)
qed

text \<open>
  C1. A wave stops, calling \<open>cancel_ongoing_resolve\<close>, exactly when the specification's
  \<open>stop\<close> holds of the flags, the minimum count, the result count and the clock; it
  starts the wave otherwise. Stopping begins no attempt, logs nothing and arms no timer;
  starting a wave arms the wave timer. The store holds fewer than \<open>2 ^ 63\<close> entries, as
  any \<^verbatim>\<open>std::map\<close> does.
\<close>

theorem next_resolve_wave_stops_iff:
  assumes "length (results_map s) < 2 ^ 63"
  shows "next_resolve_wave env now s =
     (if stop (cancelled s) (expired s) (sint (minimum s)) (length (results_map s)) now
           (wait_until s)
      then cancel_ongoing_resolve s
      else start_wave env s) \<and>
     begun (cancel_ongoing_resolve s) = begun s \<and>
     log (cancel_ongoing_resolve s) = log s \<and>
     wave_timer (cancel_ongoing_resolve s) = wave_timer s \<and>
     unicast_timer (cancel_ongoing_resolve s) = unicast_timer s \<and>
     expired (cancel_ongoing_resolve s) \<and>
     wave_timer (start_wave env s) \<noteq> None \<and>
     expired (start_wave env s) = expired s \<and>
     begun (start_wave env s) =
       begun s @ started env (mcast_endpoints s) (query s) (multicast_max_rtt (cfg env))
                   (udp_protocols s)"
  by (simp add: next_resolve_wave_def stopping_criteria_stop [OF assms]
      cancel_ongoing_resolve_eq start_wave_def udp_multicast_burst_eq Let_def)

theorem next_resolve_wave_stops_iff_witness:
  "length (results_map waiting_resolver) < 2 ^ 63 \<and>
   next_resolve_wave example_env 8 waiting_resolver = cancel_ongoing_resolve waiting_resolver \<and>
   next_resolve_wave example_env 5 waiting_resolver = start_wave example_env waiting_resolver \<and>
   wave_timer (start_wave example_env waiting_resolver) \<noteq> None"
proof -
  have len: "length (results_map waiting_resolver) < 2 ^ 63"
    by (simp add: waiting_resolver_def example_store_def)
  from next_resolve_wave_stops_iff [OF len, of example_env 8]
    next_resolve_wave_stops_iff [OF len, of example_env 5] len
  show ?thesis
    by (simp add: stop_def waiting_resolver_def fresh_resolver_def new_resolver_impl_def
        example_store_def)
qed

text \<open>
  C7. A wave that does not stop arms the wave timer with
  \<open>(if fast_mode then 0 else continuous_resolve_interval) + multicast_min_rtt\<close>, plus
  \<open>unicast_min_rtt\<close> when there are unicast endpoints; it arms the unicast timer with
  \<open>multicast_min_rtt\<close> when there are unicast endpoints and leaves it alone when there
  are none.
\<close>

theorem wave_timer_intervals:
  assumes "\<not> stopping_criteria now s"
  shows "wave_timer (next_resolve_wave env now s) =
       Some ((if fast_mode s then 0 else continuous_resolve_interval (cfg env)) +
             multicast_min_rtt (cfg env) +
             (if ucast_endpoints s \<noteq> [] then unicast_min_rtt (cfg env) else 0)) \<and>
     unicast_timer (next_resolve_wave env now s) =
       (if ucast_endpoints s \<noteq> [] then Some (multicast_min_rtt (cfg env)) else unicast_timer s)"
  using assms
  by (simp add: next_resolve_wave_def start_wave_def udp_multicast_burst_eq Let_def)

theorem wave_timer_intervals_witness:
  "\<not> stopping_criteria 0 (fresh_resolver\<lparr>fast_mode := False\<rparr>) \<and>
   ucast_endpoints fresh_resolver = [(''10.0.0.7'', 16572), (''10.0.0.7'', 16573)] \<and>
   wave_timer (next_resolve_wave example_env 0 (fresh_resolver\<lparr>fast_mode := False\<rparr>)) = Some (7 / 4) \<and>
   unicast_timer (next_resolve_wave example_env 0 (fresh_resolver\<lparr>fast_mode := False\<rparr>)) = Some (1 / 2) \<and>
   \<not> stopping_criteria 0 (fresh_resolver\<lparr>ucast_endpoints := []\<rparr>) \<and>
   wave_timer (next_resolve_wave example_env 0 (fresh_resolver\<lparr>ucast_endpoints := []\<rparr>)) = Some (1 / 2) \<and>
   unicast_timer (next_resolve_wave example_env 0 (fresh_resolver\<lparr>ucast_endpoints := []\<rparr>)) = None"
proof -
  have a: "\<not> stopping_criteria 0 (fresh_resolver\<lparr>fast_mode := False\<rparr>)"
    by (simp add: stopping_criteria_def fresh_resolver_def new_resolver_impl_def)
  have b: "\<not> stopping_criteria 0 (fresh_resolver\<lparr>ucast_endpoints := []\<rparr>)"
    by (simp add: stopping_criteria_def fresh_resolver_def new_resolver_impl_def)
  have c: "ucast_endpoints fresh_resolver = [(''10.0.0.7'', 16572), (''10.0.0.7'', 16573)]"
    by (simp add: fresh_resolver_def new_resolver_impl_def example_env_def example_cfg_def
        port_list_def upto.simps)
  from wave_timer_intervals [OF a, of example_env] wave_timer_intervals [OF b, of example_env] a b c
  show ?thesis
    by (simp add: example_env_def example_cfg_def)
       (simp add: fresh_resolver_def new_resolver_impl_def)
qed

section \<open>Properties of the resolve functions\<close>

text \<open>
  C3. With a query that the checker rejects, \<open>resolve_oneshot\<close> and \<open>resolve_continuous\<close>
  throw \<^verbatim>\<open>std::invalid_argument\<close> and leave the resolver as they found it: no attempt
  is begun, no timer armed, nothing posted, no field assigned.
\<close>

theorem invalid_query_is_rejected:
  assumes "xpath_error env q = Some what"
  shows "resolve_oneshot env q minimum_count timeout minimum_time now evs s =
       (Inl (Invalid_argument (''Invalid query '' @ [quote] @ q @ [quote] @ '': '' @ what)), s) \<and>
     resolve_continuous env q forget now s =
       (Inl (Invalid_argument (''Invalid query '' @ [quote] @ q @ [quote] @ '': '' @ what)), s)"
  using assms by (simp add: resolve_oneshot_def resolve_continuous_def check_query_def)

theorem invalid_query_is_rejected_witness:
  "xpath_error example_env ''not a valid predicate'' = Some ''syntax error'' \<and>
   resolve_oneshot example_env ''not a valid predicate'' 1 5 0 0 [Cancel_called] fresh_resolver =
     (Inl (Invalid_argument
        (''Invalid query '' @ [quote] @ ''not a valid predicate'' @ [quote] @ '': syntax error'')),
      fresh_resolver) \<and>
   resolve_continuous example_env ''not a valid predicate'' 3 0 fresh_resolver =
     (Inl (Invalid_argument
        (''Invalid query '' @ [quote] @ ''not a valid predicate'' @ [quote] @ '': syntax error'')),
      fresh_resolver)"
proof -
  have bad: "xpath_error example_env ''not a valid predicate'' = Some ''syntax error''"
    by (simp add: example_env_def)
  from invalid_query_is_rejected [OF bad, of 1 5 0 0 "[Cancel_called]" fresh_resolver 3] bad
  show ?thesis by simp
qed

text \<open>
  C9, as the specification states it: for every combination of null and non-null
  arguments the query is \<^verbatim>\<open>session_id='<sid>'\<close>, alone or followed by
  \<^verbatim>\<open> and <pred_or_prop>='<value>'\<close>. With a predicate and a null value the query is the
  session clause followed by \<^verbatim>\<open> and \<close> and the predicate as it is: neither the session
  clause alone nor a string that ends in a quoted value.
\<close>

theorem build_query_counterexample:
  "build_query example_env (Some ''count(info/desc/channel)=32'') None =
     ''session_id='' @ [quote] @ ''default'' @ [quote] @ '' and count(info/desc/channel)=32'' \<and>
   build_query example_env (Some ''count(info/desc/channel)=32'') None \<noteq>
     ''session_id='' @ [quote] @ ''default'' @ [quote] \<and>
   last (build_query example_env (Some ''count(info/desc/channel)=32'') None) \<noteq> quote"
  by (simp add: build_query_def example_env_def example_cfg_def quote_def)

text \<open>
  C9, amended: the query is \<^verbatim>\<open>session_id='<sid>'\<close> when both arguments are null,
  \<^verbatim>\<open>session_id='<sid>' and <pred_or_prop>\<close> when only the value is null, and
  \<^verbatim>\<open>session_id='<sid>' and <pred_or_prop>='<value>'\<close> when neither is; it is the query of
  the resolver that \<open>create_resolver\<close> returns.
\<close>

theorem build_query_forms:
  "build_query env None None = ''session_id='' @ [quote] @ session_id (cfg env) @ [quote] \<and>
   build_query env (Some p) None =
     ''session_id='' @ [quote] @ session_id (cfg env) @ [quote] @ '' and '' @ p \<and>
   build_query env (Some p) (Some v) =
     ''session_id='' @ [quote] @ session_id (cfg env) @ [quote] @ '' and '' @ p @
     ''='' @ [quote] @ v @ [quote] \<and>
   (\<forall>resolver :: 'd resolver_impl.
      fst (create_resolver env forget pred_or_prop val now) = Some resolver \<longrightarrow>
      query resolver = build_query env pred_or_prop val)"
  by (auto simp: build_query_def create_resolver_def resolve_continuous_def Let_def
      split: sum.splits prod.splits exception.splits)

theorem build_query_forms_witness:
  "build_query example_env (Some ''type'') (Some ''EEG'') =
     ''session_id='' @ [quote] @ ''default'' @ [quote] @ '' and type='' @ [quote] @ ''EEG'' @ [quote] \<and>
   query (the (fst (create_resolver example_env 3 (Some ''type'') (Some ''EEG'') 0
      :: string resolver_impl option \<times> (verbosity \<times> string) list))) =
     ''session_id='' @ [quote] @ ''default'' @ [quote] @ '' and type='' @ [quote] @ ''EEG'' @ [quote]"
proof -
  have valid: "xpath_error example_env (build_query example_env (Some ''type'') (Some ''EEG'')) = None"
    by (simp add: example_env_def example_cfg_def build_query_def)
  then obtain r :: "string resolver_impl"
    where r: "fst (create_resolver example_env 3 (Some ''type'') (Some ''EEG'') 0) = Some r"
    by (simp add: create_resolver_def resolve_continuous_def check_query_valid Let_def)
  from build_query_forms [of example_env "''type''" "''EEG''" 3 "Some ''type''" "Some ''EEG''" 0,
      where ?'d = string] r
  show ?thesis by (simp add: example_env_def example_cfg_def)
qed

section \<open>Cancellation\<close>

lemma cancelled_cancel_ongoing_resolve [simp]:
  "cancelled (cancel_ongoing_resolve s) = cancelled s"
  by (simp add: cancel_ongoing_resolve_eq)

lemma cancelled_udp_unicast_burst [simp]:
  "cancelled (udp_unicast_burst env aborted s) = cancelled s"
  by (cases aborted) (simp_all add: udp_unicast_burst_eq udp_unicast_burst_aborted)

lemma cancelled_start_wave [simp]:
  "cancelled (start_wave env s) = cancelled s"
  by (simp add: start_wave_def udp_multicast_burst_eq Let_def)

lemma cancelled_next_resolve_wave [simp]:
  "cancelled (next_resolve_wave env now s) = cancelled s"
  by (simp add: next_resolve_wave_def)

lemma cancelled_cancel [simp]: "cancelled (cancel s)"
  by (simp add: cancel_def)

lemma cancelled_run_handler [simp]:
  "cancelled (run_handler env h s) = cancelled s"
  by (cases h) (simp_all split: option.splits)

lemma cancelled_io_step:
  "cancelled s \<Longrightarrow> cancelled (io_step env e s)"
  by (cases e) (simp_all split: option.splits list.splits)

lemma cancelled_io_run:
  "cancelled s \<Longrightarrow> cancelled (io_run env evs s)"
  by (induction evs arbitrary: s) (simp_all add: cancelled_io_step)

lemma cancelled_results [simp]:
  "cancelled (snd (results now max_results s)) = cancelled s"
  by (simp add: results_def Let_def)

lemma cancelled_resolve_oneshot:
  "cancelled s \<Longrightarrow>
   cancelled (snd (resolve_oneshot env q minimum_count timeout minimum_time now evs s))"
  by (simp add: resolve_oneshot_def Let_def split: sum.splits)

lemma cancelled_resolve_continuous:
  "cancelled s \<Longrightarrow> cancelled (snd (resolve_continuous env q forget now s))"
  by (simp add: resolve_continuous_def Let_def split: sum.splits)

lemma cancelled_perform:
  "cancelled s \<Longrightarrow> cancelled (perform env op s)"
  by (cases op)
    (simp_all add: cancelled_resolve_oneshot cancelled_resolve_continuous cancelled_io_run)

lemma cancelled_perform_all:
  "cancelled s \<Longrightarrow> cancelled (perform_all env ops s)"
  by (induction ops arbitrary: s) (simp_all add: cancelled_perform)

lemma resolve_oneshot_cancelled:
  assumes "cancelled s" and "xpath_error env q = None"
  shows "resolve_oneshot env q minimum_count timeout minimum_time now evs s =
     (Inr [],
      cancel_ongoing_resolve
        (s\<lparr>query := q, minimum := minimum_count, wait_until := now + minimum_time,
           results_map := [], forget_after := FOREVER env, fast_mode := True, expired := False,
           resolve_timeout_expired :=
             (if timeout \<noteq> FOREVER env then Some timeout else resolve_timeout_expired s)\<rparr>))"
  using assms
  by (simp add: resolve_oneshot_def check_query_valid Let_def next_resolve_wave_def
      stopping_criteria_def)

text \<open>
  C4, as the specification states it: a \<open>resolve_oneshot\<close> call that is cancelled before
  or during the call returns the empty list. The code tests \<open>cancelled\<close> once, before it
  runs the I/O context: a call that is cancelled during the run, after a reply has been
  stored, returns that reply.
\<close>

theorem resolve_oneshot_cancel_counterexample:
  "cancelled (snd interrupted_call) \<and> out_of_work (snd interrupted_call) \<and>
   fst interrupted_call = Inr [''info1'']"
  by (simp add: interrupted_call_def resolve_oneshot_def check_query_def build_query_def
      example_env_def example_cfg_def fresh_resolver_def new_resolver_impl_def
      next_resolve_wave_def stopping_criteria_def start_wave_def udp_multicast_burst_def
      udp_unicast_burst_def cancel_def cancel_ongoing_resolve_def cancel_all_registered_def
      out_of_work_def port_list_def upto.simps Let_def)

text \<open>
  C4, amended: with a valid query, \<open>resolve_oneshot\<close> returns the empty list when
  \<open>cancel\<close> was called before the call; otherwise it returns the descriptors that the
  store holds when the I/O context has run, whether or not \<open>cancel\<close> was called during
  the run.
\<close>

theorem resolve_oneshot_when_cancelled:
  assumes "xpath_error env q = None"
  shows "(cancelled s \<longrightarrow>
        fst (resolve_oneshot env q minimum_count timeout minimum_time now evs s) = Inr []) \<and>
     (\<not> cancelled s \<longrightarrow>
        fst (resolve_oneshot env q minimum_count timeout minimum_time now evs s) =
          Inr (map (\<lambda>result. fst (snd result))
                 (results_map
                    (snd (resolve_oneshot env q minimum_count timeout minimum_time now evs s)))))"
  using assms by (simp add: resolve_oneshot_def check_query_valid Let_def)

theorem resolve_oneshot_when_cancelled_witness:
  "xpath_error example_env (build_query example_env None None) = None \<and>
   cancelled (cancel fresh_resolver) \<and>
   fst (resolve_oneshot example_env (build_query example_env None None) 1 5 0 0
          [Reply ''uid1'' ''info1'' (1 / 10)] (cancel fresh_resolver)) = Inr [] \<and>
   \<not> cancelled fresh_resolver \<and>
   fst interrupted_call = Inr (map (\<lambda>result. fst (snd result)) (results_map (snd interrupted_call)))"
proof -
  have valid: "xpath_error example_env (build_query example_env None None) = None"
    by (simp add: example_env_def example_cfg_def build_query_def)
  have was: "cancelled (cancel fresh_resolver)" by simp
  have not: "\<not> cancelled fresh_resolver"
    by (simp add: fresh_resolver_def new_resolver_impl_def)
  from resolve_oneshot_when_cancelled [OF valid, of "cancel fresh_resolver" 1 5 0 0
      "[Reply ''uid1'' ''info1'' (1 / 10)]"]
    resolve_oneshot_when_cancelled [OF valid, of fresh_resolver 1 5 0 0
      "[Reply ''uid1'' ''info1'' (1 / 10), Cancel_called, Run_posted, Run_posted, Run_posted]"]
    valid was not
  show ?thesis by (simp add: interrupted_call_def)
qed

text \<open>
  C10, as stated: once \<open>cancel\<close> has been called, every later \<open>resolve_oneshot\<close> call
  returns the empty list. A later call with an invalid query throws instead.
\<close>

theorem cancellation_counterexample:
  "cancelled (cancel fresh_resolver) \<and>
   fst (resolve_oneshot example_env ''not a valid predicate'' 1 5 0 0 [] (cancel fresh_resolver)) =
     Inl (Invalid_argument
        (''Invalid query '' @ [quote] @ ''not a valid predicate'' @ [quote] @ '': syntax error'')) \<and>
   fst (resolve_oneshot example_env ''not a valid predicate'' 1 5 0 0 [] (cancel fresh_resolver)) \<noteq>
     Inr []"
  by (simp add: resolve_oneshot_def check_query_def example_env_def)

text \<open>
  C10, amended: once \<open>cancel\<close> has been called, \<open>cancelled\<close> stays set through every
  sequence of later operations, and every later \<open>resolve_oneshot\<close> call with a valid
  query takes the stop branch on its first wave, begins no attempt and returns the
  empty list.
\<close>

theorem cancellation_is_permanent:
  assumes "xpath_error env q = None"
  shows "cancelled (perform_all env ops (cancel s)) \<and>
     resolve_oneshot env q minimum_count timeout minimum_time now evs
         (perform_all env ops (cancel s)) =
       (Inr [],
        cancel_ongoing_resolve
          ((perform_all env ops (cancel s))
             \<lparr>query := q, minimum := minimum_count, wait_until := now + minimum_time,
              results_map := [], forget_after := FOREVER env, fast_mode := True,
              expired := False,
              resolve_timeout_expired :=
                (if timeout \<noteq> FOREVER env then Some timeout
                 else resolve_timeout_expired (perform_all env ops (cancel s)))\<rparr>)) \<and>
     begun (snd (resolve_oneshot env q minimum_count timeout minimum_time now evs
                   (perform_all env ops (cancel s)))) =
       begun (perform_all env ops (cancel s))"
proof -
  have c: "cancelled (perform_all env ops (cancel s))"
    by (rule cancelled_perform_all) simp
  show ?thesis
    by (simp add: c resolve_oneshot_cancelled [OF c assms] cancel_ongoing_resolve_eq)
qed

theorem cancellation_is_permanent_witness:
  "xpath_error example_env (build_query example_env None None) = None \<and>
   cancelled (perform_all example_env example_history (cancel fresh_resolver)) \<and>
   fst (resolve_oneshot example_env (build_query example_env None None) 1 5 0 3
      [Reply ''uid1'' ''info1'' 4]
      (perform_all example_env example_history (cancel fresh_resolver))) = Inr [] \<and>
   begun (snd (resolve_oneshot example_env (build_query example_env None None) 1 5 0 3
      [Reply ''uid1'' ''info1'' 4]
      (perform_all example_env example_history (cancel fresh_resolver)))) = []"
proof -
  have valid: "xpath_error example_env (build_query example_env None None) = None"
    by (simp add: example_env_def example_cfg_def build_query_def)
  have none: "begun (perform_all example_env example_history (cancel fresh_resolver)) = []"
    by (simp add: example_history_def resolve_continuous_def check_query_valid [OF valid]
        next_resolve_wave_def stopping_criteria_def results_def cancel_def
        cancel_ongoing_resolve_eq Let_def)
      (simp add: fresh_resolver_def new_resolver_impl_def)
  from cancellation_is_permanent [OF valid, of example_history fresh_resolver 1 5 0 3
      "[Reply ''uid1'' ''info1'' 4]"] valid none
  show ?thesis by (simp add: cancel_ongoing_resolve_eq)
qed

end
